theory Spec2Isabelle
  imports Complex_Main
begin

section \<open>Python values, exceptions and the operations the handlers use\<close>

text \<open>
  The handlers pass loosely typed dictionaries (\<^verbatim>\<open>Dict[str, Any]\<close>) between the
  pipeline stages. A value of such a dictionary is a \<open>pyval\<close>. A dictionary is an
  association list with string keys; the first binding of a key is the dictionary's
  entry for it. A Python \<^verbatim>\<open>str\<close> is a \<open>string\<close> that holds its UTF-8 bytes; the
  characters of the \<^verbatim>\<open>str\<close>, by which its length, its slices and its iteration go, are
  given by \<open>utf8_chars\<close> below.
\<close>

datatype pyval =
    PNone
  | PBool bool
  | PInt int
  | PFloat rat
  | PStr string
  | PList "pyval list"
  | PDict "(string \<times> pyval) list"

type_synonym pydict = "(string \<times> pyval) list"

text \<open>
  An exception is either an \<^verbatim>\<open>HTTPException\<close> (status code and detail) or any other
  subclass of \<^verbatim>\<open>Exception\<close>, given by its class name and the text \<^verbatim>\<open>str(e)\<close>. The
  exceptions of the interpreter itself carry the class and text that CPython 3.11 gives
  them; an \<^verbatim>\<open>HTTPException\<close> prints as Starlette prints it.
\<close>

datatype exc =
    PyExc string string
  | HTTPException nat string

definition bind_r :: "exc + 'a \<Rightarrow> ('a \<Rightarrow> exc + 'b) \<Rightarrow> exc + 'b" where
  "bind_r m f = (case m of Inl e \<Rightarrow> Inl e | Inr x \<Rightarrow> f x)"

definition type_name :: "pyval \<Rightarrow> string" where
  "type_name v =
     (case v of
        PNone \<Rightarrow> ''NoneType''
      | PBool _ \<Rightarrow> ''bool''
      | PInt _ \<Rightarrow> ''int''
      | PFloat _ \<Rightarrow> ''float''
      | PStr _ \<Rightarrow> ''str''
      | PList _ \<Rightarrow> ''list''
      | PDict _ \<Rightarrow> ''dict'')"

text \<open>\<^verbatim>\<open>d.get(k, default)\<close> on a dictionary.\<close>

definition dict_get :: "pydict \<Rightarrow> string \<Rightarrow> pyval \<Rightarrow> pyval" where
  "dict_get d k dflt = (case map_of d k of None \<Rightarrow> dflt | Some v \<Rightarrow> v)"

text \<open>
  \<^verbatim>\<open>v.get(k, default)\<close> on any value: only a dictionary has the method, every other
  value raises \<^verbatim>\<open>AttributeError\<close>.
\<close>

definition py_get :: "pyval \<Rightarrow> string \<Rightarrow> pyval \<Rightarrow> exc + pyval" where
  "py_get v k dflt =
     (case v of
        PDict d \<Rightarrow> Inr (dict_get d k dflt)
      | _ \<Rightarrow> Inl (PyExc ''AttributeError''
                 ([CHR 0x27] @ type_name v @ [CHR 0x27] @ '' object has no attribute ''
                  @ [CHR 0x27] @ ''get'' @ [CHR 0x27])))"

text \<open>\<^verbatim>\<open>d.get(key, default)\<close> on a dictionary with string keys, for a key that is any
  value: a list or a dictionary is unhashable and raises \<^verbatim>\<open>TypeError\<close>; a string is looked
  up; any other hashable value equals none of the keys.\<close>

definition dict_get_key :: "pydict \<Rightarrow> pyval \<Rightarrow> pyval \<Rightarrow> exc + pyval" where
  "dict_get_key d key dflt =
     (case key of
        PStr k \<Rightarrow> Inr (dict_get d k dflt)
      | PList _ \<Rightarrow> Inl (PyExc ''TypeError'' (''unhashable type: '' @ [CHR 0x27] @ ''list'' @ [CHR 0x27]))
      | PDict _ \<Rightarrow> Inl (PyExc ''TypeError'' (''unhashable type: '' @ [CHR 0x27] @ ''dict'' @ [CHR 0x27]))
      | _ \<Rightarrow> Inr dflt)"

text \<open>Truth value of a Python value, as \<^verbatim>\<open>if v:\<close> and \<^verbatim>\<open>not v\<close> test it.\<close>

definition py_truthy :: "pyval \<Rightarrow> bool" where
  "py_truthy v =
     (case v of
        PNone \<Rightarrow> False
      | PBool b \<Rightarrow> b
      | PInt i \<Rightarrow> i \<noteq> 0
      | PFloat f \<Rightarrow> f \<noteq> 0
      | PStr s \<Rightarrow> s \<noteq> []
      | PList xs \<Rightarrow> xs \<noteq> []
      | PDict d \<Rightarrow> d \<noteq> [])"

text \<open>The keys of a dictionary, each once, in the order of their first binding.\<close>

fun dict_keys :: "pydict \<Rightarrow> string list" where
  "dict_keys [] = []"
| "dict_keys ((k, v) # d) = k # filter (\<lambda>k'. k' \<noteq> k) (dict_keys d)"

text \<open>
  The characters (code points) of a \<^verbatim>\<open>str\<close>: in UTF-8 each is a leading byte with the
  continuation bytes, of the form \<open>10xxxxxx\<close>, that follow it.
\<close>

definition continuation :: "char \<Rightarrow> bool" where
  "continuation c = (digit7 c \<and> \<not> digit6 c)"

fun utf8_chars :: "string \<Rightarrow> string list" where
  "utf8_chars [] = []"
| "utf8_chars (c # cs) =
     (case utf8_chars cs of
        (b # g) # gs \<Rightarrow> (if continuation b then (c # b # g) # gs else [c] # (b # g) # gs)
      | _ \<Rightarrow> [c] # utf8_chars cs)"

text \<open>\<^verbatim>\<open>len(v)\<close>: defined on strings, lists and dictionaries, \<^verbatim>\<open>TypeError\<close> otherwise.
  The length of a string is the number of its characters.\<close>

definition py_len :: "pyval \<Rightarrow> exc + nat" where
  "py_len v =
     (case v of
        PStr s \<Rightarrow> Inr (length (utf8_chars s))
      | PList xs \<Rightarrow> Inr (length xs)
      | PDict d \<Rightarrow> Inr (length (dict_keys d))
      | _ \<Rightarrow> Inl (PyExc ''TypeError''
                 (''object of type '' @ [CHR 0x27] @ type_name v @ [CHR 0x27] @ '' has no len()'')))"

text \<open>Decimal numerals, for \<^verbatim>\<open>str\<close> of an integer and of a status code.\<close>

fun show_nat :: "nat \<Rightarrow> string" where
  "show_nat n =
     (if n < 10 then [''0123456789'' ! n]
      else show_nat (n div 10) @ [''0123456789'' ! (n mod 10)])"

declare show_nat.simps [simp del]

definition show_int :: "int \<Rightarrow> string" where
  "show_int i = (if i < 0 then ''-'' @ show_nat (nat (- i)) else show_nat (nat i))"

text \<open>
  \<^verbatim>\<open>str(v)\<close>, which an f-string applies to an interpolated value. The text of a float, a
  list or a dictionary is Python's \<^verbatim>\<open>repr\<close>, taken as the parameter \<open>py_repr\<close>.
\<close>

definition py_str :: "(pyval \<Rightarrow> string) \<Rightarrow> pyval \<Rightarrow> string" where
  "py_str py_repr v =
     (case v of
        PNone \<Rightarrow> ''None''
      | PBool b \<Rightarrow> (if b then ''True'' else ''False'')
      | PInt i \<Rightarrow> show_int i
      | PStr s \<Rightarrow> s
      | _ \<Rightarrow> py_repr v)"

text \<open>\<^verbatim>\<open>str(e)\<close> of an exception; an \<^verbatim>\<open>HTTPException\<close> prints as status and detail.\<close>

definition str_exc :: "exc \<Rightarrow> string" where
  "str_exc e =
     (case e of
        PyExc cls msg \<Rightarrow> msg
      | HTTPException status detail \<Rightarrow> show_nat status @ '': '' @ detail)"

text \<open>\<^verbatim>\<open>sep.join(items)\<close> on a list of strings.\<close>

fun join :: "string \<Rightarrow> string list \<Rightarrow> string" where
  "join sep [] = []"
| "join sep [x] = x"
| "join sep (x # y # zs) = x @ sep @ join sep (y # zs)"

text \<open>
  The items of \<^verbatim>\<open>sep.join(v)\<close> must all be strings: the first item that is not one raises
  \<^verbatim>\<open>TypeError\<close>, naming its position and type.
\<close>

fun str_items :: "nat \<Rightarrow> pyval list \<Rightarrow> exc + string list" where
  "str_items i [] = Inr []"
| "str_items i (PStr s # vs) = bind_r (str_items (Suc i) vs) (\<lambda>ss. Inr (s # ss))"
| "str_items i (v # vs) =
     Inl (PyExc ''TypeError''
       (''sequence item '' @ show_nat i @ '': expected str instance, '' @ type_name v @ '' found''))"

text \<open>
  \<^verbatim>\<open>sep.join(v)\<close> on any value: a list is joined item by item, a string character by
  character, a dictionary key by key; a value that is not iterable raises \<^verbatim>\<open>TypeError\<close>.
\<close>

definition py_join :: "string \<Rightarrow> pyval \<Rightarrow> exc + string" where
  "py_join sep v =
     (case v of
        PList xs \<Rightarrow> bind_r (str_items 0 xs) (\<lambda>ss. Inr (join sep ss))
      | PStr s \<Rightarrow> Inr (join sep (utf8_chars s))
      | PDict d \<Rightarrow> Inr (join sep (dict_keys d))
      | _ \<Rightarrow> Inl (PyExc ''TypeError'' ''can only join an iterable''))"

text \<open>
  The slice \<^verbatim>\<open>v[:3]\<close>: the first three items of a list or characters of a string; a
  dictionary cannot be sliced and the remaining values are not subscriptable.
\<close>

definition py_slice3 :: "pyval \<Rightarrow> exc + pyval" where
  "py_slice3 v =
     (case v of
        PList xs \<Rightarrow> Inr (PList (take 3 xs))
      | PStr s \<Rightarrow> Inr (PStr (concat (take 3 (utf8_chars s))))
      | PDict _ \<Rightarrow> Inl (PyExc ''TypeError'' (''unhashable type: '' @ [CHR 0x27] @ ''slice'' @ [CHR 0x27]))
      | _ \<Rightarrow> Inl (PyExc ''TypeError''
                 ([CHR 0x27] @ type_name v @ [CHR 0x27] @ '' object is not subscriptable'')))"

section \<open>api/main.py: generate_user_message\<close>

text \<open>The warning sign U+26A0 U+FE0F that opens the RED message, as UTF-8 bytes.\<close>

definition warning_sign :: string where
  "warning_sign = [CHR 0xE2, CHR 0x9A, CHR 0xA0, CHR 0xEF, CHR 0xB8, CHR 0x8F]"

definition emergency_message :: string where
  "emergency_message =
     warning_sign @
     '' Based on your symptoms, this requires immediate medical attention. '' @
     ''Please call emergency services or go to the nearest emergency room right away. '' @
     ''Your safety is our priority.''"

definition appointment_message :: string where
  "appointment_message =
     ''I recommend speaking with a healthcare provider soon about your symptoms. '' @
     ''I can help you book an appointment with a doctor or nurse practitioner. '' @
     ''In the meantime, here'' @ [CHR 0x27] @ ''s what you can do...''"

definition self_care_message :: string where
  "self_care_message =
     ''Based on what you'' @ [CHR 0x27] @ ''ve told me, this appears manageable with self-care. '' @
     ''I'' @ [CHR 0x27] @ ''ll provide some recommendations, but please monitor your symptoms. '' @
     ''If things worsen, don'' @ [CHR 0x27] @ ''t hesitate to seek medical advice.''"

definition generate_user_message :: "pyval \<Rightarrow> pyval \<Rightarrow> exc + string" where
  "generate_user_message triage action =
     bind_r (py_get triage ''severity_level'' (PStr ''UNKNOWN'')) (\<lambda>severity.
       if severity = PStr ''RED'' then Inr emergency_message
       else if severity = PStr ''AMBER'' then Inr appointment_message
       else Inr self_care_message)"

section \<open>api/main.py: request and response models\<close>

record ChatRequest =
  message :: string
  conversation_id :: "string option"
  user_id :: "string option"
  include_history :: bool
  conversation_history :: "pyval list option"

record SymptomFrame =
  chief_complaint :: "string option"
  duration :: "string option"
  severity_self :: "string option"
  age_band :: "string option"
  associated_symptoms :: "string list"

record TriageResult =
  severity_level :: string
  rationale :: string
  recommended_action :: string
  red_flags_triggered :: "string list"
  care_instructions :: "string list"
  confidence :: "rat option"

record ActionPlan =
  plan_type :: string
  specialization :: "string option"
  urgency :: string
  instructions :: "string list"
  resources :: "string list"

record SummaryResult =
  patient_summary :: string
  clinician_summary :: string

text \<open>The fields of \<^verbatim>\<open>ChatResponse\<close> carry the prefix \<open>resp_\<close>, which keeps their names
  apart from the handlers' local variables; the field \<^verbatim>\<open>type\<close> of \<^verbatim>\<open>ActionPlan\<close> is
  \<open>plan_type\<close>.\<close>

record ChatResponse =
  resp_case_id :: string
  resp_symptoms :: SymptomFrame
  resp_triage :: TriageResult
  resp_action :: ActionPlan
  resp_summary :: SummaryResult
  resp_message :: string
  resp_status :: string

text \<open>
  The constructors of the pydantic models validate their arguments and raise on a value
  they reject. Validation is the library's: each constructor call of \<^verbatim>\<open>process_chat\<close> is
  a parameter that returns the model instance or the exception raised.
  \<open>new_SymptomFrame m v\<close> is \<^verbatim>\<open>SymptomFrame(**v)\<close>, and likewise for the others;
  \<open>new_ChatResponse\<close> takes the keyword arguments of the call in their order.
\<close>

record models =
  new_SymptomFrame :: "pyval \<Rightarrow> exc + SymptomFrame"
  new_TriageResult :: "pyval \<Rightarrow> exc + TriageResult"
  new_ActionPlan :: "pyval \<Rightarrow> exc + ActionPlan"
  new_SummaryResult :: "pyval \<Rightarrow> exc + SummaryResult"
  new_ChatResponse ::
    "pyval \<Rightarrow> SymptomFrame \<Rightarrow> TriageResult \<Rightarrow> ActionPlan \<Rightarrow> SummaryResult
      \<Rightarrow> string \<Rightarrow> string \<Rightarrow> exc + ChatResponse"

text \<open>What an endpoint sends back: the value it returns, or the status code and detail
  of the \<^verbatim>\<open>HTTPException\<close> it raises.\<close>

datatype 'a http = Ok 'a | HTTPError nat string

text \<open>An optional string as a dictionary value.\<close>

definition opt_str :: "string option \<Rightarrow> pyval" where
  "opt_str x = (case x of None \<Rightarrow> PNone | Some s \<Rightarrow> PStr s)"

text \<open>\<^verbatim>\<open>a or b\<close> on optional strings: \<open>a\<close> when it is a non-empty string, else \<open>b\<close>.\<close>

definition py_or :: "string option \<Rightarrow> string option \<Rightarrow> string option" where
  "py_or a b = (case a of None \<Rightarrow> b | Some s \<Rightarrow> (if s \<noteq> [] then Some s else b))"

section \<open>api/main.py: process_chat\<close>

text \<open>
  \<open>invoke\<close> is \<^verbatim>\<open>care_app.invoke\<close>, the compiled workflow of \<^verbatim>\<open>graph.care_flow\<close>: it returns
  the result state or raises.
\<close>

definition process_chat ::
    "models \<Rightarrow> (pydict \<Rightarrow> exc + pydict) \<Rightarrow> ChatRequest \<Rightarrow> ChatResponse http" where
  "process_chat m invoke request =
     (case
        (let initial_state =
               [(''user_input'', PStr (message request)),
                (''case_id'', opt_str (conversation_id request))]
         in bind_r (invoke initial_state) (\<lambda>result_state.
              let case_id = dict_get result_state ''case_id'' PNone;
                  symptoms = dict_get result_state ''symptoms'' (PDict []);
                  triage = dict_get result_state ''triage'' (PDict []);
                  action = dict_get result_state ''action'' (PDict []);
                  summary = dict_get result_state ''summary'' (PDict [])
              in bind_r (generate_user_message triage action) (\<lambda>message.
                 bind_r (new_SymptomFrame m symptoms) (\<lambda>symptoms_model.
                 bind_r (new_TriageResult m triage) (\<lambda>triage_model.
                 bind_r (new_ActionPlan m action) (\<lambda>action_model.
                 bind_r (new_SummaryResult m summary) (\<lambda>summary_model.
                   new_ChatResponse m case_id symptoms_model triage_model action_model
                     summary_model message ''success''))))))) of
        Inr response \<Rightarrow> Ok response
      | Inl e \<Rightarrow> HTTPError 500 (''AI processing failed: '' @ str_exc e))"

section \<open>api/main.py: chat_triage\<close>

definition severity_map :: pydict where
  "severity_map =
     [(''RED'', PStr ''emergency''),
      (''AMBER'', PStr ''urgent''),
      (''YELLOW'', PStr ''referral''),
      (''GREEN'', PStr ''self_care'')]"

definition disclaimer_text :: string where
  "disclaimer_text =
     ''This is AI-generated advice and not a substitute for professional medical consultation.''"

text \<open>The response of the \<^verbatim>\<open>except\<close> branch.\<close>

definition chat_triage_fallback :: pydict where
  "chat_triage_fallback =
     [(''severity'', PStr ''referral''),
      (''confidence'', PFloat (1 / 2)),
      (''recommendation'', PStr
         (''I recommend speaking with a healthcare provider about your symptoms. '' @
          ''Would you like me to help you book an appointment?'')),
      (''suggestedActions'', PList
         [PStr ''Monitor your symptoms'',
          PStr ''Contact your healthcare provider'',
          PStr ''Seek care if symptoms worsen'']),
      (''disclaimer'', PStr disclaimer_text),
      (''needsEscalation'', PBool False),
      (''carePathway'', PDict [(''type'', PStr ''referral''), (''urgency'', PStr ''routine'')]),
      (''actionPlan'', PDict [(''type'', PStr ''referral''), (''urgency'', PStr ''routine'')]),
      (''needsMoreInfo'', PBool True),
      (''possibleConditions'', PList [])]"

definition chat_triage :: "(pydict \<Rightarrow> exc + pydict) \<Rightarrow> ChatRequest \<Rightarrow> pydict" where
  "chat_triage invoke request =
     (case
        (let case_id = py_or (conversation_id request) (user_id request);
             initial_state =
               [(''user_input'', PStr (message request)),
                (''case_id'', opt_str case_id)]
         in bind_r (invoke initial_state) (\<lambda>result_state.
              let triage = dict_get result_state ''triage'' (PDict []);
                  action = dict_get result_state ''action'' (PDict []);
                  symptoms = dict_get result_state ''symptoms'' (PDict [])
              in bind_r (py_get triage ''severity_level'' (PStr ''UNKNOWN'')) (\<lambda>severity_level.
                 bind_r (dict_get_key severity_map severity_level (PStr ''unknown'')) (\<lambda>mapped_severity.
                 bind_r (generate_user_message triage action) (\<lambda>recommendation.
                 bind_r (py_get triage ''confidence'' (PFloat (4 / 5))) (\<lambda>confidence.
                 bind_r (py_get triage ''care_instructions'' (PList [])) (\<lambda>care_instructions.
                 bind_r (py_get symptoms ''associated_symptoms'' (PList [])) (\<lambda>associated.
                 bind_r (py_len associated) (\<lambda>n.
                 bind_r (py_get triage ''red_flags_triggered'' (PList [])) (\<lambda>red_flags.
                   Inr [(''severity'', mapped_severity),
                        (''confidence'', confidence),
                        (''recommendation'', PStr recommendation),
                        (''suggestedActions'', care_instructions),
                        (''disclaimer'', PStr disclaimer_text),
                        (''needsEscalation'', PBool (severity_level = PStr ''RED'')),
                        (''carePathway'', action),
                        (''actionPlan'', action),
                        (''needsMoreInfo'', PBool (n < 2)),
                        (''possibleConditions'', red_flags)])))))))))) of
        Inr response \<Rightarrow> response
      | Inl e \<Rightarrow> chat_triage_fallback)"

section \<open>api/main.py: get_case\<close>

text \<open>
  \<open>load_case\<close> is \<^verbatim>\<open>utils.json_store.load_case\<close>: it returns the stored case data, a
  false value when there is none, or raises. \<^verbatim>\<open>HTTPException\<close> is a subclass of
  \<^verbatim>\<open>Exception\<close>, so the handler's \<^verbatim>\<open>except Exception\<close> also catches the exception that
  the \<^verbatim>\<open>try\<close> body raises itself.
\<close>

definition get_case :: "(string \<Rightarrow> exc + pyval) \<Rightarrow> string \<Rightarrow> pyval http" where
  "get_case load_case case_id =
     (case
        bind_r (load_case case_id) (\<lambda>case_data.
          if \<not> py_truthy case_data then Inl (HTTPException 404 ''Case not found'')
          else Inr case_data) of
        Inr case_data \<Rightarrow> Ok case_data
      | Inl e \<Rightarrow> HTTPError 500 (str_exc e))"

section \<open>chains/summary_chain.py: generate_summaries\<close>

text \<open>The patient text of lines 31 to 35, from the three values read at lines 27 to 29.\<close>

definition patient_template :: "(pyval \<Rightarrow> string) \<Rightarrow> pyval \<Rightarrow> pyval \<Rightarrow> pyval \<Rightarrow> exc + string" where
  "patient_template py_repr severity action_type instrs =
     (let text0 = ''Based on your symptoms, you'' @ [CHR 0x27] @ ''ve been triaged as ''
                    @ py_str py_repr severity @ ''. '';
          text1 = text0 @ ''Recommended action: '' @ py_str py_repr action_type @ ''. ''
      in bind_r
           (if py_truthy instrs
            then bind_r (py_slice3 instrs) (\<lambda>first3.
                 bind_r (py_join ''; '' first3) (\<lambda>joined.
                   Inr (text1 @ ''Instructions: '' @ joined @ ''. '')))
            else Inr text1)
           (\<lambda>text2.
              Inr (text2 @
                ''This is not a medical diagnosis. Seek professional help if symptoms worsen.'')))"

text \<open>The clinician text of lines 38 to 48.\<close>

definition clinician_template ::
    "(pyval \<Rightarrow> string) \<Rightarrow> string \<Rightarrow> pyval \<Rightarrow> pyval \<Rightarrow> pyval \<Rightarrow> exc + string" where
  "clinician_template py_repr user_input symptoms severity triage_result =
     bind_r (py_get symptoms ''chief_complaint'' (PStr user_input)) (\<lambda>complaint.
     bind_r (py_get symptoms ''duration'' (PStr ''unknown'')) (\<lambda>lasting.
     bind_r (py_get symptoms ''associated_symptoms'' (PList [])) (\<lambda>associated.
     bind_r (py_join '', '' associated) (\<lambda>associated_text.
     bind_r (py_get triage_result ''rationale'' (PStr ''N/A'')) (\<lambda>reason.
     bind_r (py_get triage_result ''red_flags_triggered'' (PList [])) (\<lambda>red_flags.
     bind_r
       (let text0 = ''Chief complaint: '' @ py_str py_repr complaint @ ''. ''
                      @ ''Duration: '' @ py_str py_repr lasting @ ''. ''
                      @ ''Associated symptoms: '' @ associated_text @ ''. ''
                      @ ''Triage level: '' @ py_str py_repr severity @ ''. ''
                      @ ''Rationale: '' @ py_str py_repr reason @ ''. ''
        in if py_truthy red_flags
           then bind_r (py_join '', '' red_flags) (\<lambda>flags_text.
                  Inr (text0 @ ''Red flags: '' @ flags_text @ ''. ''))
           else Inr text0)
       (\<lambda>text1.
     bind_r (py_get triage_result ''recommended_action'' (PStr ''review'')) (\<lambda>recommended.
       Inr (text1 @ ''Recommended action: '' @ py_str py_repr recommended @ ''.'')))))))))"

text \<open>
  \<open>OLLAMA_AVAILABLE\<close> is the flag the module sets when its imports succeed. \<open>enhance\<close>
  is the body of the \<^verbatim>\<open>try\<close> block of lines 53 to 61, which calls the Text Generation
  Service on the patient text: it yields \<^verbatim>\<open>result.content.strip()\<close> or the exception
  raised on the way. The \<^verbatim>\<open>except Exception: pass\<close> keeps the text built so far.
\<close>

definition generate_summaries ::
    "bool \<Rightarrow> (string \<Rightarrow> exc + string) \<Rightarrow> (pyval \<Rightarrow> string)
      \<Rightarrow> string \<Rightarrow> pyval \<Rightarrow> pyval \<Rightarrow> pyval \<Rightarrow> exc + pydict" where
  "generate_summaries OLLAMA_AVAILABLE enhance py_repr user_input symptoms triage_result action_plan =
     bind_r (py_get triage_result ''severity_level'' (PStr ''UNKNOWN'')) (\<lambda>severity.
     bind_r (py_get action_plan ''type'' (PStr ''review'')) (\<lambda>action_type.
     bind_r (py_get action_plan ''instructions'' (PList [])) (\<lambda>instrs.
     bind_r (patient_template py_repr severity action_type instrs) (\<lambda>patient_text.
     bind_r (clinician_template py_repr user_input symptoms severity triage_result) (\<lambda>clinician_text.
       let patient_text' =
             (if OLLAMA_AVAILABLE
              then (case enhance patient_text of
                      Inr rewritten \<Rightarrow> rewritten
                    | Inl e \<Rightarrow> patient_text)
              else patient_text)
       in Inr [(''patient_summary'', PStr patient_text'),
               (''clinician_summary'', PStr clinician_text)])))))"

section \<open>The Triage Classifier\<close>

text \<open>
  Modelled from the spec: the Triage Classifier \<^verbatim>\<open>classify(frame, message)\<close> of the
  workflow, whose source (\<^verbatim>\<open>graph.care_flow\<close> and the triage chain) is not among the
  source files. The spec fixes an ordered set of red-flag rules, each with an
  identifier and a severity tier, evaluated against the symptom frame and the raw
  message. The first tier with a triggered rule, scanning from RED downward, wins; the
  red flags are the identifiers of the rules that matched in the winning tier, in
  evaluation order; with no match at any tier the result is GREEN with no red flags.
  The rationale is generated from the matched rules, or is the default text. The
  confidence is a function of the number of populated frame fields, clamped to the
  unit interval. The rule set, the rationale generator \<open>explain\<close> and the scoring
  function \<open>score\<close> are parameters. The result is the triage dictionary that the later
  stages read; the spec does not say how \<^verbatim>\<open>recommended_action\<close> is chosen, so the
  entry is not modelled.
\<close>

datatype tier = GREEN | AMBER | RED

definition tier_name :: "tier \<Rightarrow> string" where
  "tier_name t = (case t of GREEN \<Rightarrow> ''GREEN'' | AMBER \<Rightarrow> ''AMBER'' | RED \<Rightarrow> ''RED'')"

record rule =
  rule_id :: string
  rule_tier :: tier
  rule_matches :: "SymptomFrame \<Rightarrow> string \<Rightarrow> bool"

definition triggered :: "rule list \<Rightarrow> tier \<Rightarrow> SymptomFrame \<Rightarrow> string \<Rightarrow> string list" where
  "triggered rules t frame msg =
     map rule_id (filter (\<lambda>r. rule_tier r = t \<and> rule_matches r frame msg) rules)"

definition populated :: "SymptomFrame \<Rightarrow> nat" where
  "populated frame =
     (if chief_complaint frame = None then 0 else 1)
     + (if duration frame = None then 0 else 1)
     + (if severity_self frame = None then 0 else 1)
     + (if age_band frame = None then 0 else 1)
     + (if associated_symptoms frame = [] then 0 else 1)"

definition clamp01 :: "rat \<Rightarrow> rat" where
  "clamp01 x = max 0 (min 1 x)"

definition verdict ::
    "(string list \<Rightarrow> string) \<Rightarrow> (nat \<Rightarrow> rat) \<Rightarrow> SymptomFrame \<Rightarrow> tier \<Rightarrow> string list \<Rightarrow> pydict" where
  "verdict explain score frame t flags =
     [(''severity_level'', PStr (tier_name t)),
      (''rationale'', PStr (if flags = [] then ''no red flags identified'' else explain flags)),
      (''red_flags_triggered'', PList (map PStr flags)),
      (''confidence'', PFloat (clamp01 (score (populated frame))))]"

definition classify ::
    "rule list \<Rightarrow> (string list \<Rightarrow> string) \<Rightarrow> (nat \<Rightarrow> rat) \<Rightarrow> SymptomFrame \<Rightarrow> string \<Rightarrow> pydict" where
  "classify rules explain score frame msg =
     (let red = triggered rules RED frame msg;
          amber = triggered rules AMBER frame msg;
          green = triggered rules GREEN frame msg
      in if red \<noteq> [] then verdict explain score frame RED red
         else if amber \<noteq> [] then verdict explain score frame AMBER amber
         else verdict explain score frame GREEN green)"


section \<open>The Flow Orchestrator\<close>

text \<open>
  Modelled from the spec: the operation \<^verbatim>\<open>process_turn\<close> of the Flow Orchestrator, whose
  source (\<^verbatim>\<open>graph.care_flow\<close>) is not among the source files. The turn loads the case,
  hands the message, the most recent turns and the prior frame to the extractor, and
  merges the partial frame it returns into the cumulative frame: an incoming field
  that is set overwrites, the associated symptoms are united. If this is the first turn
  of the case and the merged frame lacks both a chief complaint and any associated
  symptom, the turn ends in \<open>NEEDS_MORE_INFO\<close> with a clarifying prompt and no stage is
  run. Otherwise the classifier, the planner and the summary generator run in this
  order, the turn is appended to the case and the case becomes \<open>COMPLETE\<close>. The stages
  and the text of the prompt are parameters; a failing stage and its fallback are
  outside this model.
\<close>

datatype case_status = AWAITING_INPUT | COMPLETE

datatype flow_state =
  START | EXTRACTING | NEEDS_MORE_INFO | TRIAGING | PLANNING | SUMMARIZING | DONE

record Case =
  turns :: "(string \<times> pydict) list"
  symptom_frame :: SymptomFrame
  triage_snapshot :: "pydict option"
  action_snapshot :: "pydict option"
  summary_snapshot :: "pydict option"
  status :: case_status







section \<open>Concrete collaborators\<close>

text \<open>
  A strict reading of the model constructors, for running the handlers on concrete
  states: a field takes exactly the values of its declared type (an integer also
  where a float is declared), a missing field takes its declared default, and anything
  else is a validation error. The models of the source validate in pydantic's lax mode,
  which in addition converts a numeric string or a boolean given for the float field
  \<^verbatim>\<open>confidence\<close>; the states below hold no such value, and on them the two readings
  agree.
\<close>

definition invalid :: "string \<Rightarrow> exc + 'a" where
  "invalid model = Inl (PyExc ''ValidationError'' (''validation error for '' @ model))"

definition as_kwargs :: "string \<Rightarrow> pyval \<Rightarrow> exc + pydict" where
  "as_kwargs model v =
     (case v of
        PDict d \<Rightarrow> Inr d
      | _ \<Rightarrow> Inl (PyExc ''TypeError''
                 (model @ ''() argument after ** must be a mapping, not '' @ type_name v)))"

definition req_str :: "string \<Rightarrow> pydict \<Rightarrow> string \<Rightarrow> exc + string" where
  "req_str model d k = (case map_of d k of Some (PStr s) \<Rightarrow> Inr s | _ \<Rightarrow> invalid model)"

definition opt_str_field :: "string \<Rightarrow> pydict \<Rightarrow> string \<Rightarrow> exc + string option" where
  "opt_str_field model d k =
     (case map_of d k of
        None \<Rightarrow> Inr None
      | Some PNone \<Rightarrow> Inr None
      | Some (PStr s) \<Rightarrow> Inr (Some s)
      | _ \<Rightarrow> invalid model)"

fun str_list :: "string \<Rightarrow> pyval list \<Rightarrow> exc + string list" where
  "str_list model [] = Inr []"
| "str_list model (PStr s # vs) = bind_r (str_list model vs) (\<lambda>ss. Inr (s # ss))"
| "str_list model (v # vs) = invalid model"

definition str_list_field ::
    "string \<Rightarrow> pydict \<Rightarrow> string \<Rightarrow> string list option \<Rightarrow> exc + string list" where
  "str_list_field model d k dflt =
     (case map_of d k of
        None \<Rightarrow> (case dflt of None \<Rightarrow> invalid model | Some xs \<Rightarrow> Inr xs)
      | Some (PList vs) \<Rightarrow> str_list model vs
      | _ \<Rightarrow> invalid model)"

definition opt_float_field :: "string \<Rightarrow> pydict \<Rightarrow> string \<Rightarrow> exc + rat option" where
  "opt_float_field model d k =
     (case map_of d k of
        None \<Rightarrow> Inr None
      | Some PNone \<Rightarrow> Inr None
      | Some (PFloat f) \<Rightarrow> Inr (Some f)
      | Some (PInt i) \<Rightarrow> Inr (Some (of_int i))
      | _ \<Rightarrow> invalid model)"

definition strict_SymptomFrame :: "pyval \<Rightarrow> exc + SymptomFrame" where
  "strict_SymptomFrame v =
     bind_r (as_kwargs ''SymptomFrame'' v) (\<lambda>d.
     bind_r (opt_str_field ''SymptomFrame'' d ''chief_complaint'') (\<lambda>f1.
     bind_r (opt_str_field ''SymptomFrame'' d ''duration'') (\<lambda>f2.
     bind_r (opt_str_field ''SymptomFrame'' d ''severity_self'') (\<lambda>f3.
     bind_r (opt_str_field ''SymptomFrame'' d ''age_band'') (\<lambda>f4.
     bind_r (str_list_field ''SymptomFrame'' d ''associated_symptoms'' (Some [])) (\<lambda>f5.
       Inr \<lparr>chief_complaint = f1, duration = f2, severity_self = f3, age_band = f4,
            associated_symptoms = f5\<rparr>))))))"

definition strict_TriageResult :: "pyval \<Rightarrow> exc + TriageResult" where
  "strict_TriageResult v =
     bind_r (as_kwargs ''TriageResult'' v) (\<lambda>d.
     bind_r (req_str ''TriageResult'' d ''severity_level'') (\<lambda>f1.
     bind_r (req_str ''TriageResult'' d ''rationale'') (\<lambda>f2.
     bind_r (req_str ''TriageResult'' d ''recommended_action'') (\<lambda>f3.
     bind_r (str_list_field ''TriageResult'' d ''red_flags_triggered'' None) (\<lambda>f4.
     bind_r (str_list_field ''TriageResult'' d ''care_instructions'' None) (\<lambda>f5.
     bind_r (opt_float_field ''TriageResult'' d ''confidence'') (\<lambda>f6.
       Inr \<lparr>severity_level = f1, rationale = f2, recommended_action = f3,
            red_flags_triggered = f4, care_instructions = f5, confidence = f6\<rparr>)))))))"

definition strict_ActionPlan :: "pyval \<Rightarrow> exc + ActionPlan" where
  "strict_ActionPlan v =
     bind_r (as_kwargs ''ActionPlan'' v) (\<lambda>d.
     bind_r (req_str ''ActionPlan'' d ''type'') (\<lambda>f1.
     bind_r (opt_str_field ''ActionPlan'' d ''specialization'') (\<lambda>f2.
     bind_r (req_str ''ActionPlan'' d ''urgency'') (\<lambda>f3.
     bind_r (str_list_field ''ActionPlan'' d ''instructions'' None) (\<lambda>f4.
     bind_r (str_list_field ''ActionPlan'' d ''resources'' (Some [])) (\<lambda>f5.
       Inr \<lparr>plan_type = f1, specialization = f2, urgency = f3, instructions = f4,
            resources = f5\<rparr>))))))"

definition strict_SummaryResult :: "pyval \<Rightarrow> exc + SummaryResult" where
  "strict_SummaryResult v =
     bind_r (as_kwargs ''SummaryResult'' v) (\<lambda>d.
     bind_r (req_str ''SummaryResult'' d ''patient_summary'') (\<lambda>f1.
     bind_r (req_str ''SummaryResult'' d ''clinician_summary'') (\<lambda>f2.
       Inr \<lparr>patient_summary = f1, clinician_summary = f2\<rparr>)))"

definition strict_ChatResponse ::
    "pyval \<Rightarrow> SymptomFrame \<Rightarrow> TriageResult \<Rightarrow> ActionPlan \<Rightarrow> SummaryResult
      \<Rightarrow> string \<Rightarrow> string \<Rightarrow> exc + ChatResponse" where
  "strict_ChatResponse cid sf tr ap sr msg st =
     (case cid of
        PStr s \<Rightarrow>
          Inr \<lparr>resp_case_id = s, resp_symptoms = sf, resp_triage = tr, resp_action = ap,
               resp_summary = sr, resp_message = msg, resp_status = st\<rparr>
      | _ \<Rightarrow> invalid ''ChatResponse'')"

definition strict_models :: models where
  "strict_models =
     \<lparr>new_SymptomFrame = strict_SymptomFrame,
      new_TriageResult = strict_TriageResult,
      new_ActionPlan = strict_ActionPlan,
      new_SummaryResult = strict_SummaryResult,
      new_ChatResponse = strict_ChatResponse\<rparr>"

text \<open>Workflows, requests and a case store for running the handlers.\<close>

definition failing_workflow :: "pydict \<Rightarrow> exc + pydict" where
  "failing_workflow state = Inl (PyExc ''ConnectionError'' ''connection refused'')"

definition headache_state :: pydict where
  "headache_state =
     [(''case_id'', PStr ''case-1''),
      (''symptoms'', PDict
         [(''chief_complaint'', PStr ''headache''),
          (''duration'', PStr ''2 days''),
          (''associated_symptoms'', PList [PStr ''fever''])]),
      (''triage'', PDict
         [(''severity_level'', PStr ''GREEN''),
          (''rationale'', PStr ''no red flags identified''),
          (''recommended_action'', PStr ''self-care''),
          (''red_flags_triggered'', PList []),
          (''care_instructions'', PList [PStr ''Rest and drink fluids'']),
          (''confidence'', PFloat (9 / 10))]),
      (''action'', PDict
         [(''type'', PStr ''self_care''),
          (''urgency'', PStr ''routine''),
          (''instructions'', PList [PStr ''Rest and drink fluids''])]),
      (''summary'', PDict
         [(''patient_summary'', PStr ''Rest at home.''),
          (''clinician_summary'', PStr ''Chief complaint: headache.'')])]"

definition headache_frame :: SymptomFrame where
  "headache_frame =
     \<lparr>chief_complaint = Some ''headache'', duration = Some ''2 days'', severity_self = None,
      age_band = None, associated_symptoms = [''fever'']\<rparr>"

definition headache_response :: ChatResponse where
  "headache_response =
     \<lparr>resp_case_id = ''case-1'',
      resp_symptoms = headache_frame,
      resp_triage =
        \<lparr>severity_level = ''GREEN'', rationale = ''no red flags identified'',
         recommended_action = ''self-care'', red_flags_triggered = [],
         care_instructions = [''Rest and drink fluids''], confidence = Some (9 / 10)\<rparr>,
      resp_action =
        \<lparr>plan_type = ''self_care'', specialization = None, urgency = ''routine'',
         instructions = [''Rest and drink fluids''], resources = []\<rparr>,
      resp_summary =
        \<lparr>patient_summary = ''Rest at home.'',
         clinician_summary = ''Chief complaint: headache.''\<rparr>,
      resp_message = self_care_message,
      resp_status = ''success''\<rparr>"


text \<open>A workflow that completes only when it is handed the empty message.\<close>

definition empty_input_workflow :: "pydict \<Rightarrow> exc + pydict" where
  "empty_input_workflow state =
     (if dict_get state ''user_input'' PNone = PStr []
      then Inr headache_state
      else Inl (PyExc ''ValueError'' ''not the empty message''))"

definition empty_request :: ChatRequest where
  "empty_request =
     \<lparr>message = [], conversation_id = None, user_id = Some ''test_user_123'',
      include_history = True, conversation_history = None\<rparr>"

definition headache_request :: ChatRequest where
  "headache_request =
     \<lparr>message = ''I have a headache and a fever'', conversation_id = None,
      user_id = Some ''test_user_123'', include_history = True, conversation_history = None\<rparr>"

text \<open>
  A case store held as a dictionary from case ids to case data, for running \<open>get_case\<close>:
  a case id without a record yields \<^verbatim>\<open>None\<close>, one of the false values that the handler
  tests for.
\<close>

definition load_case_from :: "pydict \<Rightarrow> string \<Rightarrow> exc + pyval" where
  "load_case_from store case_id = Inr (dict_get store case_id PNone)"

text \<open>A rule set, a rationale generator and a scoring function for running the classifier.\<close>

definition cardiac_rule :: rule where
  "cardiac_rule =
     \<lparr>rule_id = ''chest_pain_with_dyspnea'', rule_tier = RED,
      rule_matches = (\<lambda>frame msg.
        ''chest pain'' \<in> set (associated_symptoms frame)
        \<and> ''shortness of breath'' \<in> set (associated_symptoms frame))\<rparr>"

definition fever_rule :: rule where
  "fever_rule =
     \<lparr>rule_id = ''persistent_fever'', rule_tier = AMBER,
      rule_matches = (\<lambda>frame msg. ''fever'' \<in> set (associated_symptoms frame))\<rparr>"

definition mild_rule :: rule where
  "mild_rule =
     \<lparr>rule_id = ''mild_self_rating'', rule_tier = GREEN,
      rule_matches = (\<lambda>frame msg. severity_self frame = Some ''mild'')\<rparr>"

definition sample_rules :: "rule list" where
  "sample_rules = [fever_rule, mild_rule, cardiac_rule]"

definition sample_explain :: "string list \<Rightarrow> string" where
  "sample_explain flags = ''matched: '' @ join '', '' flags"

definition sample_score :: "nat \<Rightarrow> rat" where
  "sample_score n = of_nat n / 5"

definition cardiac_frame :: SymptomFrame where
  "cardiac_frame =
     \<lparr>chief_complaint = Some ''chest pain'', duration = None, severity_self = Some ''mild'',
      age_band = None,
      associated_symptoms = [''chest pain'', ''fever'', ''shortness of breath'']\<rparr>"

text \<open>A Text Generation Service that is down, and the inputs of one summary.\<close>

definition service_down :: "string \<Rightarrow> exc + string" where
  "service_down text = Inl (PyExc ''ConnectionError'' ''connection refused'')"

definition amber_triage :: pydict where
  "amber_triage =
     [(''severity_level'', PStr ''AMBER''),
      (''rationale'', PStr ''persistent fever''),
      (''recommended_action'', PStr ''referral''),
      (''red_flags_triggered'', PList [])]"

definition amber_action :: pydict where
  "amber_action =
     [(''type'', PStr ''referral''),
      (''urgency'', PStr ''urgent''),
      (''instructions'', PList [PStr ''Book a visit'', PStr ''Rest''])]"

definition amber_symptoms :: pydict where
  "amber_symptoms =
     [(''chief_complaint'', PStr ''fever''),
      (''duration'', PStr ''3 days''),
      (''associated_symptoms'', PList [PStr ''cough''])]"

definition amber_patient_text :: string where
  "amber_patient_text =
     ''Based on your symptoms, you'' @ [CHR 0x27] @ ''ve been triaged as AMBER. '' @
     ''Recommended action: referral. '' @
     ''Instructions: Book a visit; Rest. '' @
     ''This is not a medical diagnosis. Seek professional help if symptoms worsen.''"

definition amber_clinician_text :: string where
  "amber_clinician_text =
     ''Chief complaint: fever. Duration: 3 days. Associated symptoms: cough. '' @
     ''Triage level: AMBER. Rationale: persistent fever. Recommended action: referral.''"







section \<open>Properties of generate_user_message\<close>

lemma user_messages_distinct:
  "emergency_message \<noteq> appointment_message"
  "emergency_message \<noteq> self_care_message"
  "appointment_message \<noteq> self_care_message"
  by (simp_all add: emergency_message_def appointment_message_def self_care_message_def
        warning_sign_def)

text \<open>
  Claim C10. For a triage dictionary, \<open>generate_user_message\<close> returns the emergency-room
  message exactly when \<open>severity_level\<close> is the string RED, the appointment-booking
  message exactly when it is the string AMBER, and the self-care message for every
  other value: a missing key (which defaults to UNKNOWN), YELLOW, or anything else.
\<close>

theorem generate_user_message_by_severity:
  "(generate_user_message (PDict d) action = Inr emergency_message)
     = (dict_get d ''severity_level'' (PStr ''UNKNOWN'') = PStr ''RED'')
   \<and> (generate_user_message (PDict d) action = Inr appointment_message)
     = (dict_get d ''severity_level'' (PStr ''UNKNOWN'') = PStr ''AMBER'')
   \<and> (generate_user_message (PDict d) action = Inr self_care_message)
     = (dict_get d ''severity_level'' (PStr ''UNKNOWN'') \<noteq> PStr ''RED''
        \<and> dict_get d ''severity_level'' (PStr ''UNKNOWN'') \<noteq> PStr ''AMBER'')"
  using user_messages_distinct
  by (auto simp add: generate_user_message_def py_get_def bind_r_def)

section \<open>Failure of the workflow invocation\<close>

text \<open>
  Claim C1, as the code has it. When the workflow invocation raises an exception,
  \<open>chat_triage\<close> returns its fixed fallback response and nothing of the exception:
  severity \<open>referral\<close>, a referral-type action plan of routine urgency, no escalation
  and the disclaimer. \<open>process_chat\<close> answers the same failure with HTTP status 500,
  whose detail is the text \<open>AI processing failed: \<close> followed by the text of the
  exception.
\<close>

theorem workflow_exception_responses:
  "(invoke [(''user_input'', PStr (message request)),
            (''case_id'', opt_str (py_or (conversation_id request) (user_id request)))] = Inl e
      \<longrightarrow> chat_triage invoke request = chat_triage_fallback)
   \<and> (invoke [(''user_input'', PStr (message request)),
               (''case_id'', opt_str (conversation_id request))] = Inl e
      \<longrightarrow> process_chat m invoke request
            = HTTPError 500 (''AI processing failed: '' @ str_exc e))
   \<and> dict_get chat_triage_fallback ''severity'' PNone = PStr ''referral''
   \<and> dict_get chat_triage_fallback ''actionPlan'' PNone
         = PDict [(''type'', PStr ''referral''), (''urgency'', PStr ''routine'')]
   \<and> dict_get chat_triage_fallback ''needsEscalation'' PNone = PBool False
   \<and> dict_get chat_triage_fallback ''disclaimer'' PNone = PStr disclaimer_text"
  by (simp add: process_chat_def chat_triage_def bind_r_def Let_def
        chat_triage_fallback_def dict_get_def)

text \<open>The two responses for a workflow that cannot reach its model server.\<close>

theorem workflow_exception_responses_witness:
  "chat_triage failing_workflow headache_request = chat_triage_fallback
   \<and> process_chat strict_models failing_workflow headache_request
       = HTTPError 500 ''AI processing failed: connection refused''"
  using workflow_exception_responses
          [of failing_workflow headache_request "PyExc ''ConnectionError'' ''connection refused''"
              strict_models]
  by (simp add: failing_workflow_def str_exc_def)

text \<open>
  The claim as the spec states it fails: for the failing workflow \<open>process_chat\<close> sends
  an error response that carries the exception's text, and the severity of the
  \<open>chat_triage\<close> fallback is the word that the severity map gives to YELLOW, while
  AMBER maps to another word.
\<close>

theorem process_chat_propagates_exception:
  "process_chat strict_models failing_workflow headache_request
     = HTTPError 500 ''AI processing failed: connection refused''
   \<and> dict_get (chat_triage failing_workflow headache_request) ''severity'' PNone
       = PStr ''referral''
   \<and> dict_get severity_map ''YELLOW'' PNone = PStr ''referral''
   \<and> dict_get severity_map ''AMBER'' PNone = PStr ''urgent''"
  by (simp add: process_chat_def chat_triage_def chat_triage_fallback_def failing_workflow_def
        bind_r_def str_exc_def dict_get_def severity_map_def)

section \<open>The empty message\<close>

lemma process_chat_status:
  "(\<exists>response. process_chat m invoke request = Ok response)
   \<or> (\<exists>detail. process_chat m invoke request = HTTPError 500 detail)"
  by (simp add: process_chat_def split: sum.splits)

text \<open>
  Claim C7 does not hold of the code. \<open>ChatRequest\<close> declares \<open>message\<close> as a required
  string without a length constraint and \<open>process_chat\<close> has no check of its own: the
  empty message is handed to the workflow like any other, and the turn is answered
  with a success response.
\<close>

theorem process_chat_accepts_empty_message:
  "process_chat strict_models empty_input_workflow empty_request = Ok headache_response"
  by (simp add: process_chat_def empty_input_workflow_def empty_request_def headache_state_def
        headache_response_def headache_frame_def bind_r_def dict_get_def
        generate_user_message_def py_get_def opt_str_def
        strict_models_def strict_SymptomFrame_def strict_TriageResult_def
        strict_ActionPlan_def strict_SummaryResult_def strict_ChatResponse_def as_kwargs_def
        req_str_def opt_str_field_def str_list_field_def opt_float_field_def)

section \<open>Case retrieval\<close>

lemma get_case_never_404: "get_case load_case cid \<noteq> HTTPError 404 detail"
  by (simp add: get_case_def split: sum.splits)

lemma get_case_found:
  "load_case cid = Inr snapshot \<Longrightarrow> py_truthy snapshot \<Longrightarrow> get_case load_case cid = Ok snapshot"
  by (simp add: get_case_def bind_r_def)

lemma get_case_absent:
  "load_case cid = Inr v \<Longrightarrow> \<not> py_truthy v
     \<Longrightarrow> get_case load_case cid = HTTPError 500 ''404: Case not found''"
  by (simp add: get_case_def bind_r_def str_exc_def show_nat.simps)

text \<open>
  Claim C6 does not hold of the code. For a case id without a record the handler
  raises the 404 exception inside its own \<^verbatim>\<open>try\<close> block, the \<^verbatim>\<open>except Exception\<close> clause
  catches it, and the response has status 500.
\<close>

theorem get_case_absent_is_500:
  "get_case (load_case_from []) ''case-404'' = HTTPError 500 ''404: Case not found''"
  by (simp add: get_case_def load_case_from_def dict_get_def bind_r_def py_truthy_def
        str_exc_def show_nat.simps)

section \<open>The more-info signal\<close>







section \<open>The classifier\<close>

lemma map_of_verdict:
  "map_of (verdict explain score frame t flags) ''severity_level'' = Some (PStr (tier_name t))"
  "map_of (verdict explain score frame t flags) ''red_flags_triggered''
     = Some (PList (map PStr flags))"
  by (simp_all add: verdict_def)

lemma classify_cases:
  "classify rules explain score frame msg
     = verdict explain score frame RED (triggered rules RED frame msg)
   \<or> classify rules explain score frame msg
     = verdict explain score frame AMBER (triggered rules AMBER frame msg)
   \<or> classify rules explain score frame msg
     = verdict explain score frame GREEN (triggered rules GREEN frame msg)"
  by (simp add: classify_def Let_def)

lemma triggered_mem:
  "r \<in> set rules \<Longrightarrow> rule_tier r = t \<Longrightarrow> rule_matches r frame msg
     \<Longrightarrow> rule_id r \<in> set (triggered rules t frame msg)"
  by (auto simp add: triggered_def)

text \<open>
  Claim C2. If a RED-tier rule of the rule set matches the frame and the message, the
  classifier's result has severity level RED and its red flags are the matching
  RED-tier rules, of which there is at least one, whatever rules of the other tiers
  match as well.
\<close>

theorem classify_red_rule_wins:
  assumes "r \<in> set rules" and "rule_tier r = RED" and "rule_matches r frame msg"
  shows "dict_get (classify rules explain score frame msg) ''severity_level'' PNone
           = PStr ''RED''
       \<and> dict_get (classify rules explain score frame msg) ''red_flags_triggered'' PNone
           = PList (map PStr (triggered rules RED frame msg))
       \<and> rule_id r \<in> set (triggered rules RED frame msg)
       \<and> triggered rules RED frame msg \<noteq> []"
proof -
  have mem: "rule_id r \<in> set (triggered rules RED frame msg)"
    using assms by (rule triggered_mem)
  then have ne: "triggered rules RED frame msg \<noteq> []"
    by auto
  then have "classify rules explain score frame msg
               = verdict explain score frame RED (triggered rules RED frame msg)"
    by (simp add: classify_def Let_def)
  with mem ne show ?thesis
    by (simp add: dict_get_def map_of_verdict tier_name_def)
qed

text \<open>A frame that matches the RED rule, the AMBER rule and the GREEN rule at once.\<close>

theorem classify_red_rule_wins_witness:
  "dict_get (classify sample_rules sample_explain sample_score cardiac_frame
       ''my chest hurts and I cannot breathe'') ''severity_level'' PNone = PStr ''RED''
   \<and> dict_get (classify sample_rules sample_explain sample_score cardiac_frame
       ''my chest hurts and I cannot breathe'') ''red_flags_triggered'' PNone
       = PList [PStr ''chest_pain_with_dyspnea'']
   \<and> rule_matches fever_rule cardiac_frame ''my chest hurts and I cannot breathe''
   \<and> rule_matches mild_rule cardiac_frame ''my chest hurts and I cannot breathe''"
  using classify_red_rule_wins
          [of cardiac_rule sample_rules cardiac_frame "''my chest hurts and I cannot breathe''"
              sample_explain sample_score]
  by (simp add: sample_rules_def cardiac_rule_def fever_rule_def mild_rule_def
        cardiac_frame_def triggered_def)

text \<open>
  Claim C3. The triage dictionary of the classifier always has a severity level, and it
  is one of the three strings GREEN, AMBER and RED.
\<close>

theorem classify_severity_level:
  "map_of (classify rules explain score frame msg) ''severity_level''
     \<in> {Some (PStr ''GREEN''), Some (PStr ''AMBER''), Some (PStr ''RED'')}"
  using classify_cases [of rules explain score frame msg]
  by (auto simp add: map_of_verdict tier_name_def)

section \<open>The summaries\<close>

text \<open>
  Claim C4. The clinician summary, and whether \<open>generate_summaries\<close> raises at all,
  is the same whether or not the Text Generation Service is available and whatever it
  answers: it is a function of the user message, the symptoms, the triage result and
  the action plan alone.
\<close>

theorem clinician_summary_independent_of_service:
  "map_sum id (\<lambda>d. dict_get d ''clinician_summary'' PNone)
     (generate_summaries available1 enhance1 py_repr user_input syms triage_result action_plan)
   = map_sum id (\<lambda>d. dict_get d ''clinician_summary'' PNone)
       (generate_summaries available2 enhance2 py_repr user_input syms triage_result action_plan)"
  by (simp add: generate_summaries_def bind_r_def dict_get_def Let_def split: sum.splits)

text \<open>
  Claim C5. Let the patient text built from the triage result and the action plan be
  \<open>template\<close>. If the Text Generation Service is unavailable, or its call on the
  template raises, then \<open>generate_summaries\<close> returns the template unchanged as the
  patient summary; the failed call raises nothing, so the function returns whenever the
  clinician text can be built.
\<close>

theorem generate_summaries_service_failure:
  assumes "patient_template py_repr (dict_get tri ''severity_level'' (PStr ''UNKNOWN''))
             (dict_get act ''type'' (PStr ''review''))
             (dict_get act ''instructions'' (PList [])) = Inr template"
    and "available \<longrightarrow> (\<exists>e. enhance template = Inl e)"
  shows "generate_summaries available enhance py_repr user_input syms (PDict tri) (PDict act)
       = bind_r (clinician_template py_repr user_input syms
                   (dict_get tri ''severity_level'' (PStr ''UNKNOWN'')) (PDict tri))
           (\<lambda>clinician_text.
              Inr [(''patient_summary'', PStr template),
                   (''clinician_summary'', PStr clinician_text)])"
  using assms
  by (auto simp add: generate_summaries_def bind_r_def py_get_def Let_def split: sum.splits)

text \<open>An AMBER triage summarised while the service refuses the connection.\<close>

theorem generate_summaries_service_failure_witness:
  "\<forall>py_repr.
     generate_summaries True service_down py_repr ''I feel hot'' (PDict amber_symptoms)
       (PDict amber_triage) (PDict amber_action)
     = Inr [(''patient_summary'', PStr amber_patient_text),
            (''clinician_summary'', PStr amber_clinician_text)]"
proof
  fix py_repr
  have template:
    "patient_template py_repr (dict_get amber_triage ''severity_level'' (PStr ''UNKNOWN''))
       (dict_get amber_action ''type'' (PStr ''review''))
       (dict_get amber_action ''instructions'' (PList [])) = Inr amber_patient_text"
    by (simp add: patient_template_def amber_triage_def amber_action_def amber_patient_text_def
          dict_get_def bind_r_def py_str_def py_truthy_def py_slice3_def py_join_def Let_def)
  have down: "True \<longrightarrow> (\<exists>e. service_down amber_patient_text = Inl e)"
    by (simp add: service_down_def)
  have clinician:
    "clinician_template py_repr ''I feel hot'' (PDict amber_symptoms)
       (dict_get amber_triage ''severity_level'' (PStr ''UNKNOWN'')) (PDict amber_triage)
     = Inr amber_clinician_text"
    by (simp add: clinician_template_def amber_symptoms_def amber_triage_def
          amber_clinician_text_def dict_get_def bind_r_def py_get_def py_str_def py_truthy_def
          py_join_def Let_def)
  show "generate_summaries True service_down py_repr ''I feel hot'' (PDict amber_symptoms)
          (PDict amber_triage) (PDict amber_action)
        = Inr [(''patient_summary'', PStr amber_patient_text),
               (''clinician_summary'', PStr amber_clinician_text)]"
    using generate_summaries_service_failure
            [of py_repr amber_triage amber_action amber_patient_text True service_down
                "''I feel hot''" "PDict amber_symptoms"]
          template down clinician
    by (simp add: bind_r_def)
qed

end
